theory Spec2Isabelle
  imports Complex_Main "HOL-Library.Word" "HOL-Library.Sublist"
begin

section \<open>JavaScript values used by server.js\<close>

text \<open>
  The uploaded buffer is a sequence of bytes. A JavaScript number is an IEEE double: a
  finite value (a real here; 0.5 and 255 are exact doubles), one of the two infinities,
  or NaN. Reading an index that an array does not have gives \<open>undefined\<close>, modelled
  as \<open>None\<close>, and \<open>undefined\<close> converts to NaN in a comparison.
\<close>

type_synonym bytes = "8 word list"

datatype jsnum = Finite real | PosInfinity | NegInfinity | NaN

fun js_lt :: "jsnum \<Rightarrow> jsnum \<Rightarrow> bool" where
  "js_lt NaN y = False"
| "js_lt x NaN = False"
| "js_lt (Finite a) (Finite b) = (a < b)"
| "js_lt (Finite a) PosInfinity = True"
| "js_lt (Finite a) NegInfinity = False"
| "js_lt PosInfinity y = False"
| "js_lt NegInfinity NegInfinity = False"
| "js_lt NegInfinity y = True"

definition js_gt :: "jsnum \<Rightarrow> jsnum \<Rightarrow> bool" where
  "js_gt x y = js_lt y x"

definition js_le :: "jsnum \<Rightarrow> jsnum \<Rightarrow> bool" where
  "js_le x y = (x \<noteq> NaN \<and> y \<noteq> NaN \<and> \<not> js_lt y x)"

definition to_number :: "jsnum option \<Rightarrow> jsnum" where
  "to_number v = (case v of None \<Rightarrow> NaN | Some n \<Rightarrow> n)"

definition startsWith :: "string \<Rightarrow> string \<Rightarrow> bool" where
  "startsWith s p = (take (length p) s = p)"

text \<open>
  The \<open>status\<close> property an HTTP library sets on an error is an HTTP error code, 400
  to 599. With other values (0, a code Node refuses to send, a code that is sent without
  a body) the response is not the envelope modelled here; they are outside the model.
\<close>

typedef http_error_code = "{400..599::nat}"
  by (rule exI [of _ 500]) simp

text \<open>
  A thrown value: an Error object with its \<open>message\<close> and, when an HTTP library has
  set one, a \<open>status\<close> property.
\<close>

datatype js_error = JsError (err_message: string) (err_status: "http_error_code option")

section \<open>Data model\<close>

text \<open>
  The document written for a prediction (server.js lines 81-86, the same four fields as
  the response's \<open>data\<close>, lines 92-97) and the diagnostic document of
  \<open>/test-firestore\<close> (lines 112-115).
\<close>

record prediction =
  id' :: string
  result :: string
  suggestion :: string
  createdAt :: string

datatype document =
    PredictionDoc prediction
  | TestDoc (doc_message: string) (doc_timestamp: string)

text \<open>What \<open>res.status(c).send({status, message, data})\<close> sends.\<close>

record response =
  http :: nat
  status :: string
  message :: string
  data :: "prediction option"

text \<open>
  The file object multer hands to \<open>fileFilter\<close> and stores in \<open>req.file\<close>; its size
  is the length of its buffer.
\<close>

record upload_file =
  mimetype :: string
  buffer :: bytes

text \<open>
  Calls into the libraries, in the order made. The log is ghost state: it records that a
  call was attempted, whether or not it returned.
\<close>

datatype event =
    DecodeImage nat
  | ResizeBilinear "nat list"
  | ExpandDims nat
  | TensorDiv real
  | ModelPredict
  | TensorArray
  | DocSet string string

text \<open>
  The state a request runs in: the global \<open>model\<close> (line 31, unset until
  \<open>loadModel\<close> assigns it), the Firestore documents by collection and document id, and
  the log of library calls.
\<close>

record 'm state =
  model :: "'m option"
  firestore :: "string \<times> string \<rightharpoonup> document"
  calls :: "event list"

text \<open>
  TensorFlow.js is an external library: its operations are parameters of the model, each
  one either returning or throwing. \<open>'t\<close> is the type of tensors, \<open>'m\<close> of loaded
  models. \<open>array\<close> is \<open>await prediction.array()\<close> of a rank-2 output.
\<close>

record ('t, 'm) tfjs =
  decodeImage :: "bytes \<Rightarrow> nat \<Rightarrow> js_error + 't"
  resizeBilinear :: "'t \<Rightarrow> nat list \<Rightarrow> js_error + 't"
  expandDims :: "'t \<Rightarrow> nat \<Rightarrow> js_error + 't"
  scalar :: "real \<Rightarrow> 't"
  tensor_div :: "'t \<Rightarrow> 't \<Rightarrow> js_error + 't"
  predict :: "'m \<Rightarrow> 't \<Rightarrow> js_error + 't"
  array :: "'t \<Rightarrow> js_error + jsnum list list"

text \<open>
  What the environment decides for one request: the value of \<open>uuidv4()\<close>, of
  \<open>new Date().toISOString()\<close>, and whether the Firestore write is rejected (with which
  error).
\<close>

record req_env =
  uuid :: string
  now :: string
  db_error :: "js_error option"

section \<open>Running code that may throw\<close>

definition and_then ::
  "('s \<Rightarrow> (js_error + 'a) \<times> 's) \<Rightarrow> ('a \<Rightarrow> 's \<Rightarrow> (js_error + 'b) \<times> 's) \<Rightarrow>
     's \<Rightarrow> (js_error + 'b) \<times> 's" where
  "and_then f g s = (case f s of (Inl e, s') \<Rightarrow> (Inl e, s') | (Inr a, s') \<Rightarrow> g a s')"

definition call :: "event \<Rightarrow> js_error + 'a \<Rightarrow> 'm state \<Rightarrow> (js_error + 'a) \<times> 'm state" where
  "call ev outcome s = (outcome, s\<lparr>calls := calls s @ [ev]\<rparr>)"

definition no_call :: "js_error + 'a \<Rightarrow> 'm state \<Rightarrow> (js_error + 'a) \<times> 'm state" where
  "no_call outcome s = (outcome, s)"

section \<open>Upload handler (lines 19-27)\<close>

definition fileSize :: nat where
  "fileSize = 1000000"

definition fileFilter :: "upload_file \<Rightarrow> js_error + bool" where
  "fileFilter file =
     (if \<not> startsWith (mimetype file) ''image/''
      then Inl (JsError ''File must be an image'' None)
      else Inr True)"

text \<open>
  \<open>upload.single('image')\<close>: multer's middleware for the part of the multipart body in
  the field \<open>image\<close>, when there is one. It asks \<open>fileFilter\<close> when the part's headers
  arrive, then reads the part into memory and fails with its error
  \<open>File too large\<close> once \<open>limits.fileSize\<close> bytes have come: the parser under
  multer 1.4.5-lts (busboy 1.x) stops when the count reaches the limit, so a part of
  exactly that size is rejected too. An error goes to the error middleware; otherwise
  \<open>req.file\<close> is set and the route's handler runs.
  A request is that part, or none: file parts under other field names are outside the
  model.
\<close>

definition upload_single :: "upload_file option \<Rightarrow> js_error + upload_file option" where
  "upload_single part =
     (case part of
        None \<Rightarrow> Inr None
      | Some file \<Rightarrow>
          (case fileFilter file of
             Inl err \<Rightarrow> Inl err
           | Inr accept \<Rightarrow>
               if \<not> accept then Inr None
               else if length (buffer file) \<ge> fileSize then Inl (JsError ''File too large'' None)
               else Inr (Some file)))"

section \<open>Model loading (lines 31-43)\<close>

definition initial_state :: "'m state" where
  "initial_state = \<lparr>model = None, firestore = Map.empty, calls = []\<rparr>"

definition loadModel :: "js_error + 'm \<Rightarrow> 'm state \<Rightarrow> 'm state" where
  "loadModel loaded s = (case loaded of Inl error \<Rightarrow> s | Inr m \<Rightarrow> s\<lparr>model := Some m\<rparr>)"

section \<open>The prediction route (lines 46-106)\<close>

definition fail :: "nat \<Rightarrow> string \<Rightarrow> response" where
  "fail code msg = \<lparr>http = code, status = ''fail'', message = msg, data = None\<rparr>"

text \<open>Lines 64-68.\<close>

definition prepare_image ::
  "('t, 'm) tfjs \<Rightarrow> bytes \<Rightarrow> 'm state \<Rightarrow> (js_error + 't) \<times> 'm state" where
  "prepare_image tf buf =
     and_then (call (DecodeImage 3) (decodeImage tf buf 3)) (\<lambda>decoded.
     and_then (call (ResizeBilinear [224, 224]) (resizeBilinear tf decoded [224, 224])) (\<lambda>resized.
     and_then (call (ExpandDims 0) (expandDims tf resized 0)) (\<lambda>expanded.
     call (TensorDiv 255) (tensor_div tf expanded (scalar tf 255)))))"

text \<open>
  \<open>predictionArray[0][0]\<close>: with no row 0 the second index is read from
  \<open>undefined\<close>, which throws a TypeError; with an empty row 0 the value is
  \<open>undefined\<close>.
\<close>

definition at_0_0 :: "jsnum list list \<Rightarrow> js_error + jsnum option" where
  "at_0_0 predictionArray =
     (case predictionArray of
        [] \<Rightarrow> Inl (JsError ''Cannot read properties of undefined (reading '0')'' None)
      | row0 # _ \<Rightarrow> Inr (case row0 of [] \<Rightarrow> None | x # _ \<Rightarrow> Some x))"

text \<open>Lines 64-73, up to the value compared with 0.5.\<close>

definition run_inference ::
  "('t, 'm) tfjs \<Rightarrow> 'm \<Rightarrow> bytes \<Rightarrow> 'm state \<Rightarrow> (js_error + jsnum option) \<times> 'm state" where
  "run_inference tf m buf =
     and_then (prepare_image tf buf) (\<lambda>imageTensor.
     and_then (call ModelPredict (predict tf m imageTensor)) (\<lambda>prediction.
     and_then (call TensorArray (array tf prediction)) (\<lambda>predictionArray.
     no_call (at_0_0 predictionArray))))"

text \<open>Lines 73-76.\<close>

definition result_of :: "jsnum option \<Rightarrow> string" where
  "result_of score = (if js_gt (to_number score) (Finite (1/2)) then ''Cancer'' else ''Non-cancer'')"

definition suggestion_of :: "string \<Rightarrow> string" where
  "suggestion_of r =
     (if r = ''Cancer'' then ''Segera periksa ke dokter!''
      else ''Penyakit kanker tidak terdeteksi.'')"

text \<open>\<open>db.collection(c).doc(d).set(doc)\<close>: the write the environment lets through or rejects.\<close>

definition doc_set ::
  "string \<Rightarrow> string \<Rightarrow> document \<Rightarrow> js_error option \<Rightarrow> 'm state \<Rightarrow> (js_error + unit) \<times> 'm state" where
  "doc_set c d doc rejected s =
     (case rejected of
        Some err \<Rightarrow> (Inl err, s\<lparr>calls := calls s @ [DocSet c d]\<rparr>)
      | None \<Rightarrow>
          (Inr (), s\<lparr>firestore := (firestore s)((c, d) \<mapsto> doc), calls := calls s @ [DocSet c d]\<rparr>))"

text \<open>Lines 73-98: interpret the score, save the record, answer.\<close>

definition record_of :: "req_env \<Rightarrow> jsnum option \<Rightarrow> prediction" where
  "record_of env score =
     \<lparr>id' = uuid env, result = result_of score,
      suggestion = suggestion_of (result_of score), createdAt = now env\<rparr>"

definition save_and_respond ::
  "req_env \<Rightarrow> jsnum option \<Rightarrow> 'm state \<Rightarrow> (js_error + response) \<times> 'm state" where
  "save_and_respond env score =
     and_then (doc_set ''predictions'' (uuid env) (PredictionDoc (record_of env score)) (db_error env))
       (\<lambda>_. no_call (Inr \<lparr>http = 200, status = ''success'', message = ''Prediction successful'',
                          data = Some (record_of env score)\<rparr>))"

text \<open>The handler of lines 46-106, given \<open>req.file\<close>.\<close>

definition predict_handler ::
  "('t, 'm) tfjs \<Rightarrow> req_env \<Rightarrow> upload_file option \<Rightarrow> 'm state \<Rightarrow> response \<times> 'm state" where
  "predict_handler tf env req_file s =
     (case model s of
        None \<Rightarrow> (fail 500 ''Model is not loaded yet. Please try again later.'', s)
      | Some m \<Rightarrow>
          (case req_file of
             None \<Rightarrow> (fail 400 ''File not uploaded'', s)
           | Some file \<Rightarrow>
               (case and_then (run_inference tf m (buffer file)) (save_and_respond env) s of
                  (Inl error, s') \<Rightarrow> (fail 500 ''An error occurred during prediction'', s')
                | (Inr res, s') \<Rightarrow> (res, s'))))"

section \<open>The diagnostic route (lines 109-121)\<close>

definition test_firestore :: "req_env \<Rightarrow> 'm state \<Rightarrow> response \<times> 'm state" where
  "test_firestore env s =
     (case doc_set ''test'' ''testDoc'' (TestDoc ''Hello, Firestore!'' (now env)) (db_error env) s of
        (Inl error, s') \<Rightarrow> (fail 500 (err_message error), s')
      | (Inr _, s') \<Rightarrow>
          (\<lparr>http = 200, status = ''success'', message = ''Firestore connected!'', data = None\<rparr>, s'))"

section \<open>Error handling middleware (lines 124-135)\<close>

text \<open>
  \<open>a || b\<close> on a status: an absent status is falsy, an error code is not; on a string:
  the empty one is falsy.
\<close>

definition error_middleware :: "js_error \<Rightarrow> response" where
  "error_middleware err =
     (if err_message err = ''File too large''
      then fail 413 ''Payload content length greater than maximum allowed: 1MB''
      else fail (case err_status err of None \<Rightarrow> 500 | Some c \<Rightarrow> Rep_http_error_code c)
                (if err_message err = [] then ''Internal Server Error'' else err_message err))"

text \<open>
  A request to \<open>POST /predict\<close> (line 46): multer first, then the handler, or the error
  middleware with multer's error. The handler catches what it throws itself.
\<close>

definition post_predict ::
  "('t, 'm) tfjs \<Rightarrow> req_env \<Rightarrow> upload_file option \<Rightarrow> 'm state \<Rightarrow> response \<times> 'm state" where
  "post_predict tf env part s =
     (case upload_single part of
        Inl err \<Rightarrow> (error_middleware err, s)
      | Inr req_file \<Rightarrow> predict_handler tf env req_file s)"

section \<open>A concrete instance\<close>

text \<open>
  The six library calls of lines 65-72, in the order the handler makes them.
\<close>

definition pipeline :: "event list" where
  "pipeline =
     [DecodeImage 3, ResizeBilinear [224, 224], ExpandDims 0, TensorDiv 255,
      ModelPredict, TensorArray]"

text \<open>
  A small instance of the library, on which the theorems below are exercised: a tensor is
  the list of its values, a model is the score it gives to every input, and decoding
  fails on an empty buffer.
\<close>

definition sample_tf :: "(real list, real) tfjs" where
  "sample_tf =
     \<lparr>decodeImage = (\<lambda>buf channels.
        if buf = [] then Inl (JsError ''Expected image (BMP, JPEG, PNG, or GIF)'' None)
        else Inr (map (\<lambda>b. real (unat b)) buf)),
      resizeBilinear = (\<lambda>t size. Inr t),
      expandDims = (\<lambda>t axis. Inr t),
      scalar = (\<lambda>r. [r]),
      tensor_div = (\<lambda>t d. case d of [] \<Rightarrow> Inl (JsError ''empty divisor'' None)
                                  | c # _ \<Rightarrow> Inr (map (\<lambda>x. x / c) t)),
      predict = (\<lambda>m t. Inr [m]),
      array = (\<lambda>t. Inr [map Finite t])\<rparr>"

definition sample_env :: req_env where
  "sample_env =
     \<lparr>uuid = ''0b0e7a52-4c1d-4f6e-9a3b-2f1c8d5e6a70'', now = ''2024-12-01T08:30:00.000Z'',
      db_error = None\<rparr>"

definition sample_env_offline :: req_env where
  "sample_env_offline = sample_env\<lparr>db_error := Some (JsError ''14 UNAVAILABLE'' None)\<rparr>"

definition sample_image :: upload_file where
  "sample_image = \<lparr>mimetype = ''image/png'', buffer = [137, 80]\<rparr>"

definition sample_empty_image :: upload_file where
  "sample_empty_image = \<lparr>mimetype = ''image/png'', buffer = []\<rparr>"

definition sample_text :: upload_file where
  "sample_text = \<lparr>mimetype = ''text/plain'', buffer = [104, 105]\<rparr>"

definition sample_large_image :: upload_file where
  "sample_large_image = \<lparr>mimetype = ''image/jpeg'', buffer = replicate 1000001 0\<rparr>"

definition sample_large_pdf :: upload_file where
  "sample_large_pdf = \<lparr>mimetype = ''application/pdf'', buffer = replicate 1000001 0\<rparr>"

definition sample_loaded :: "real state" where
  "sample_loaded = loadModel (Inr (9/10)) initial_state"

definition sample_loaded_low :: "real state" where
  "sample_loaded_low = loadModel (Inr (1/10)) initial_state"

definition sample_unloaded :: "real state" where
  "sample_unloaded = loadModel (Inl (JsError ''Request to model.json failed'' None)) initial_state"

section \<open>Facts about the building blocks\<close>

lemma and_then_Inr:
  "and_then f g s = (Inr b, s') \<longleftrightarrow> (\<exists>a t. f s = (Inr a, t) \<and> g a t = (Inr b, s'))"
  by (auto simp: and_then_def split: prod.splits sum.splits)

lemma and_then_Inl:
  "and_then f g s = (Inl e, s') \<longleftrightarrow>
     f s = (Inl e, s') \<or> (\<exists>a t. f s = (Inr a, t) \<and> g a t = (Inl e, s'))"
  by (auto simp: and_then_def split: prod.splits sum.splits)

text \<open>
  The inference returns a score exactly when each of the six calls returned, each fed
  with the previous one's value, and row 0 of the output exists.
\<close>

lemma run_inference_Inr:
  "run_inference tf m buf s = (Inr score, s') \<longleftrightarrow>
     (\<exists>decoded resized expanded input prediction predictionArray.
        decodeImage tf buf 3 = Inr decoded \<and>
        resizeBilinear tf decoded [224, 224] = Inr resized \<and>
        expandDims tf resized 0 = Inr expanded \<and>
        tensor_div tf expanded (scalar tf 255) = Inr input \<and>
        predict tf m input = Inr prediction \<and>
        array tf prediction = Inr predictionArray \<and>
        at_0_0 predictionArray = Inr score \<and>
        s' = s\<lparr>calls := calls s @ pipeline\<rparr>)"
  by (auto simp: run_inference_def prepare_image_def and_then_Inr call_def no_call_def pipeline_def)

lemma run_inference_Inl:
  "run_inference tf m buf s = (Inl e, s') \<Longrightarrow>
     \<exists>evs. s' = s\<lparr>calls := calls s @ evs\<rparr> \<and> prefix evs pipeline \<and> evs \<noteq> []"
  by (auto simp: run_inference_def prepare_image_def and_then_Inl and_then_Inr call_def no_call_def pipeline_def)

text \<open>What multer lets through, and what it rejects with which error.\<close>

lemma upload_single_Inr:
  "upload_single part = Inr req_file \<longleftrightarrow>
     (part = None \<and> req_file = None) \<or>
     (\<exists>file. part = Some file \<and> req_file = Some file \<and>
        startsWith (mimetype file) ''image/'' \<and> length (buffer file) < 1000000)"
  by (auto simp: upload_single_def fileFilter_def fileSize_def split: option.splits)

lemma upload_single_Inl:
  "upload_single part = Inl err \<longleftrightarrow>
     (\<exists>file. part = Some file \<and>
        (if \<not> startsWith (mimetype file) ''image/'' then err = JsError ''File must be an image'' None
         else 1000000 \<le> length (buffer file) \<and> err = JsError ''File too large'' None))"
  by (auto simp: upload_single_def fileFilter_def fileSize_def split: option.splits)

lemma upload_single_at_limit:
  "startsWith (mimetype file) ''image/'' \<Longrightarrow> length (buffer file) = 1000000 \<Longrightarrow>
   upload_single (Some file) = Inl (JsError ''File too large'' None)"
  by (simp add: upload_single_def fileFilter_def fileSize_def)

text \<open>The branches of the handler, one lemma each.\<close>

lemma save_and_respond_ok:
  "db_error env = None \<Longrightarrow>
   save_and_respond env score s =
     (Inr \<lparr>http = 200, status = ''success'', message = ''Prediction successful'',
           data = Some (record_of env score)\<rparr>,
      s\<lparr>firestore := (firestore s)((''predictions'', uuid env) \<mapsto> PredictionDoc (record_of env score)),
        calls := calls s @ [DocSet ''predictions'' (uuid env)]\<rparr>)"
  by (simp add: save_and_respond_def doc_set_def and_then_def no_call_def)

lemma save_and_respond_rejected:
  "db_error env = Some err \<Longrightarrow>
   save_and_respond env score s =
     (Inl err, s\<lparr>calls := calls s @ [DocSet ''predictions'' (uuid env)]\<rparr>)"
  by (simp add: save_and_respond_def doc_set_def and_then_def no_call_def)

lemma predict_handler_unloaded:
  "model s = None \<Longrightarrow>
   predict_handler tf env req_file s =
     (fail 500 ''Model is not loaded yet. Please try again later.'', s)"
  by (simp add: predict_handler_def)

lemma predict_handler_no_file:
  "model s = Some m \<Longrightarrow> predict_handler tf env None s = (fail 400 ''File not uploaded'', s)"
  by (simp add: predict_handler_def)

lemma predict_handler_inference_failed:
  "model s = Some m \<Longrightarrow> run_inference tf m (buffer file) s = (Inl e, s1) \<Longrightarrow>
   predict_handler tf env (Some file) s =
     (fail 500 ''An error occurred during prediction'', s1)"
  by (simp add: predict_handler_def and_then_def)

lemma predict_handler_write_rejected:
  "model s = Some m \<Longrightarrow> run_inference tf m (buffer file) s = (Inr score, s1) \<Longrightarrow>
   db_error env = Some err \<Longrightarrow>
   predict_handler tf env (Some file) s =
     (fail 500 ''An error occurred during prediction'',
      s1\<lparr>calls := calls s1 @ [DocSet ''predictions'' (uuid env)]\<rparr>)"
  by (simp add: predict_handler_def and_then_def save_and_respond_rejected)

lemma predict_handler_success:
  "model s = Some m \<Longrightarrow> run_inference tf m (buffer file) s = (Inr score, s1) \<Longrightarrow>
   db_error env = None \<Longrightarrow>
   predict_handler tf env (Some file) s =
     (\<lparr>http = 200, status = ''success'', message = ''Prediction successful'',
       data = Some (record_of env score)\<rparr>,
      s1\<lparr>firestore := (firestore s1)((''predictions'', uuid env) \<mapsto> PredictionDoc (record_of env score)),
         calls := calls s1 @ [DocSet ''predictions'' (uuid env)]\<rparr>)"
  by (simp add: predict_handler_def and_then_def save_and_respond_ok)

lemma post_predict_rejected:
  "upload_single part = Inl err \<Longrightarrow> post_predict tf env part s = (error_middleware err, s)"
  by (simp add: post_predict_def)

lemma post_predict_accepted:
  "upload_single part = Inr req_file \<Longrightarrow>
   post_predict tf env part s = predict_handler tf env req_file s"
  by (simp add: post_predict_def)

lemma error_middleware_multer:
  "error_middleware (JsError ''File must be an image'' None) = fail 500 ''File must be an image''"
  "error_middleware (JsError ''File too large'' None) =
     fail 413 ''Payload content length greater than maximum allowed: 1MB''"
  by (simp_all add: error_middleware_def)

text \<open>The concrete instance, evaluated.\<close>

lemma sample_facts:
  "model sample_loaded = Some (9/10)"
  "firestore sample_loaded = Map.empty"
  "calls sample_loaded = []"
  "model sample_unloaded = None"
  "upload_single (Some sample_image) = Inr (Some sample_image)"
  "upload_single (Some sample_text) = Inl (JsError ''File must be an image'' None)"
  "upload_single (Some sample_large_image) = Inl (JsError ''File too large'' None)"
  "upload_single (Some sample_large_pdf) = Inl (JsError ''File must be an image'' None)"
  "fileFilter sample_text = Inl (JsError ''File must be an image'' None)"
  "length (buffer sample_large_pdf) = 1000001"
  "length (buffer sample_large_image) = 1000001"
  "startsWith (mimetype sample_large_image) ''image/''"
  "\<not> startsWith (mimetype sample_text) ''image/''"
  by (simp_all add: sample_loaded_def sample_unloaded_def loadModel_def initial_state_def
        upload_single_def fileFilter_def fileSize_def startsWith_def
        sample_image_def sample_text_def sample_large_image_def sample_large_pdf_def)

lemma sample_inference:
  "run_inference sample_tf (9/10) (buffer sample_image) s =
     (Inr (Some (Finite (9/10))), s\<lparr>calls := calls s @ pipeline\<rparr>)"
  by (simp add: run_inference_def prepare_image_def and_then_def call_def no_call_def
        sample_tf_def sample_image_def at_0_0_def pipeline_def)

section \<open>Persistence of prediction records\<close>

text \<open>
  C1, as the code has it. A record is persisted exactly when the upload was accepted, the
  model was loaded, the inference returned a score and the Firestore write was let
  through. Then the response is the 200 envelope whose \<open>data\<close> is the record; the
  record has the id \<open>uuidv4()\<close> gave, the result and suggestion of the score and the
  timestamp; it is stored under that id in \<open>predictions\<close>; and the request made the
  six library calls and one write. In every other case (upload rejected, model not
  loaded, no file, a call of the inference throwing, the write rejected) the response
  is a \<open>fail\<close> envelope without data and the documents are as they were.
\<close>

theorem record_iff_inference_and_write:
  "post_predict tf env part s = (res, s') \<Longrightarrow>
   (\<forall>file m score.
      upload_single part = Inr (Some file) \<and> model s = Some m \<and>
      fst (run_inference tf m (buffer file) s) = Inr score \<and> db_error env = None \<longrightarrow>
      res = \<lparr>http = 200, status = ''success'', message = ''Prediction successful'',
             data = Some \<lparr>id' = uuid env, result = result_of score,
                          suggestion = suggestion_of (result_of score), createdAt = now env\<rparr>\<rparr> \<and>
      firestore s' = (firestore s)((''predictions'', uuid env) \<mapsto>
        PredictionDoc \<lparr>id' = uuid env, result = result_of score,
                       suggestion = suggestion_of (result_of score), createdAt = now env\<rparr>) \<and>
      calls s' = calls s @ pipeline @ [DocSet ''predictions'' (uuid env)]) \<and>
   (\<not> (\<exists>file m score.
      upload_single part = Inr (Some file) \<and> model s = Some m \<and>
      fst (run_inference tf m (buffer file) s) = Inr score \<and> db_error env = None) \<longrightarrow>
      http res \<noteq> 200 \<and> status res = ''fail'' \<and> data res = None \<and>
      firestore s' = firestore s)"
proof (cases "upload_single part")
  case (Inl err)
  assume pp: "post_predict tf env part s = (res, s')"
  from Inl pp have "res = error_middleware err" "s' = s"
    by (simp_all add: post_predict_rejected)
  moreover from Inl have "http (error_middleware err) \<noteq> 200 \<and>
      status (error_middleware err) = ''fail'' \<and> data (error_middleware err) = None"
    by (auto simp: upload_single_Inl error_middleware_multer fail_def split: if_splits)
  ultimately show ?thesis using Inl by simp
next
  case (Inr req_file)
  assume pp: "post_predict tf env part s = (res, s')"
  with Inr have ph: "predict_handler tf env req_file s = (res, s')"
    by (simp add: post_predict_accepted)
  show ?thesis
  proof (cases "model s")
    case None
    with ph Inr show ?thesis by (auto simp: predict_handler_unloaded fail_def)
  next
    case (Some m)
    show ?thesis
    proof (cases req_file)
      case None
      with ph Inr Some show ?thesis by (auto simp: predict_handler_no_file fail_def)
    next
      case rf: (Some f)
      obtain r s1 where ri: "run_inference tf m (buffer f) s = (r, s1)"
        by (cases "run_inference tf m (buffer f) s")
      show ?thesis
      proof (cases r)
        case (Inl e)
        from ri Inl have "run_inference tf m (buffer f) s = (Inl e, s1)" by simp
        from run_inference_Inl [OF this] obtain evs where
          "s1 = s\<lparr>calls := calls s @ evs\<rparr>" by blast
        moreover have "predict_handler tf env (Some f) s =
            (fail 500 ''An error occurred during prediction'', s1)"
          using Some ri Inl by (simp add: predict_handler_inference_failed)
        ultimately show ?thesis using ph rf Inr Some ri Inl by (auto simp: fail_def)
      next
        case score: (Inr score)
        from ri score have s1: "s1 = s\<lparr>calls := calls s @ pipeline\<rparr>"
          by (auto simp: run_inference_Inr)
        show ?thesis
        proof (cases "db_error env")
          case None
          have "predict_handler tf env (Some f) s =
            (\<lparr>http = 200, status = ''success'', message = ''Prediction successful'',
              data = Some (record_of env score)\<rparr>,
             s1\<lparr>firestore := (firestore s1)((''predictions'', uuid env) \<mapsto> PredictionDoc (record_of env score)),
                calls := calls s1 @ [DocSet ''predictions'' (uuid env)]\<rparr>)"
            using Some ri score None by (simp add: predict_handler_success)
          with ph rf Inr Some ri score s1 None show ?thesis
            by (auto simp: record_of_def)
        next
          case err: (Some err)
          have "predict_handler tf env (Some f) s =
            (fail 500 ''An error occurred during prediction'',
             s1\<lparr>calls := calls s1 @ [DocSet ''predictions'' (uuid env)]\<rparr>)"
            using Some ri score err by (simp add: predict_handler_write_rejected)
          with ph rf Inr Some ri score s1 err show ?thesis
            by (auto simp: fail_def)
        qed
      qed
    qed
  qed
qed

theorem record_iff_inference_and_write_witness:
  "upload_single (Some sample_image) = Inr (Some sample_image) \<and>
   model sample_loaded = Some (9/10) \<and>
   fst (run_inference sample_tf (9/10) (buffer sample_image) sample_loaded) =
     Inr (Some (Finite (9/10))) \<and>
   db_error sample_env = None \<and>
   firestore (snd (post_predict sample_tf sample_env (Some sample_image) sample_loaded)) =
     [(''predictions'', uuid sample_env) \<mapsto>
        PredictionDoc \<lparr>id' = uuid sample_env, result = ''Cancer'',
                       suggestion = ''Segera periksa ke dokter!'', createdAt = now sample_env\<rparr>] \<and>
   db_error sample_env_offline \<noteq> None \<and>
   firestore (snd (post_predict sample_tf sample_env_offline (Some sample_image) sample_loaded)) =
     firestore sample_loaded"
proof -
  have d: "db_error sample_env = None" "db_error sample_env_offline \<noteq> None"
    by (simp_all add: sample_env_def sample_env_offline_def)
  have r: "result_of (Some (Finite (9/10))) = ''Cancer''"
    by (simp add: result_of_def to_number_def js_gt_def)
  have i: "fst (run_inference sample_tf (9/10) (buffer sample_image) sample_loaded) =
     Inr (Some (Finite (9/10)))"
    by (simp add: sample_inference)
  have p: "post_predict sample_tf sample_env (Some sample_image) sample_loaded =
      (fst (post_predict sample_tf sample_env (Some sample_image) sample_loaded),
       snd (post_predict sample_tf sample_env (Some sample_image) sample_loaded))"
    by simp
  have q: "post_predict sample_tf sample_env_offline (Some sample_image) sample_loaded =
      (fst (post_predict sample_tf sample_env_offline (Some sample_image) sample_loaded),
       snd (post_predict sample_tf sample_env_offline (Some sample_image) sample_loaded))"
    by simp
  have ok: "upload_single (Some sample_image) = Inr (Some sample_image) \<and>
      model sample_loaded = Some (9/10) \<and>
      fst (run_inference sample_tf (9/10) (buffer sample_image) sample_loaded) =
        Inr (Some (Finite (9/10))) \<and>
      db_error sample_env = None"
    by (simp add: sample_facts i d)
  have off: "\<not> (\<exists>file m score.
      upload_single (Some sample_image) = Inr (Some file) \<and> model sample_loaded = Some m \<and>
      fst (run_inference sample_tf m (buffer file) sample_loaded) = Inr score \<and>
      db_error sample_env_offline = None)"
    by (simp add: d)
  show ?thesis
    using record_iff_inference_and_write [OF p, THEN conjunct1, rule_format, OF ok]
          record_iff_inference_and_write [OF q, THEN conjunct2, rule_format, OF off]
    by (simp add: sample_facts d r i suggestion_of_def)
qed

text \<open>
  The specification ties the record to the inference alone. That fails where the
  inference returns a score and Firestore rejects the write: the handler answers 500 and
  no document exists.
\<close>

theorem inference_without_record_counterexample:
  "upload_single (Some sample_image) = Inr (Some sample_image) \<and>
   model sample_loaded = Some (9/10) \<and>
   fst (run_inference sample_tf (9/10) (buffer sample_image) sample_loaded) =
     Inr (Some (Finite (9/10))) \<and>
   http (fst (post_predict sample_tf sample_env_offline (Some sample_image) sample_loaded)) = 500 \<and>
   firestore (snd (post_predict sample_tf sample_env_offline (Some sample_image) sample_loaded)) =
     Map.empty"
proof -
  have d: "db_error sample_env_offline = Some (JsError ''14 UNAVAILABLE'' None)"
    by (simp add: sample_env_offline_def)
  show ?thesis
    by (simp add: sample_facts sample_inference post_predict_accepted fail_def
          predict_handler_write_rejected [OF sample_facts(1) sample_inference d])
qed

section \<open>Result interpreter\<close>

text \<open>
  C2. The result is a function of the score alone: a score above 0.5 gives
  \<open>Cancer\<close>, a score at most 0.5 (0.5 itself included) gives \<open>Non-cancer\<close>, no
  other result exists, and the suggestion is fixed by the result: the doctor's advice for
  \<open>Cancer\<close>, the all-clear otherwise. The comparisons are JavaScript's, so the two
  cases leave out NaN, for which the code answers \<open>Non-cancer\<close>.
\<close>

theorem result_interpreter:
  "(js_gt s (Finite (1/2)) \<longrightarrow> result_of (Some s) = ''Cancer'') \<and>
   (js_le s (Finite (1/2)) \<longrightarrow> result_of (Some s) = ''Non-cancer'') \<and>
   result_of (Some (Finite r)) = (if 1/2 < r then ''Cancer'' else ''Non-cancer'') \<and>
   (result_of v = ''Cancer'' \<or> result_of v = ''Non-cancer'') \<and>
   suggestion_of (result_of v) =
     (if result_of v = ''Cancer'' then ''Segera periksa ke dokter!''
      else ''Penyakit kanker tidak terdeteksi.'')"
  by (simp add: result_of_def suggestion_of_def js_gt_def js_le_def to_number_def)

theorem result_interpreter_witness:
  "js_le (Finite (1/2)) (Finite (1/2)) \<and> result_of (Some (Finite (1/2))) = ''Non-cancer'' \<and>
   js_gt (Finite (3/4)) (Finite (1/2)) \<and> result_of (Some (Finite (3/4))) = ''Cancer''"
  using result_interpreter [of "Finite (1/2)" "1/2" "Some (Finite (1/2))"]
        result_interpreter [of "Finite (3/4)" "3/4" "Some (Finite (3/4))"]
  by (simp add: js_le_def js_gt_def)

section \<open>Rejected uploads\<close>

text \<open>
  C3. An upload whose MIME type does not start with \<open>image/\<close> is always answered
  with HTTP 500, status \<open>fail\<close> and the message \<open>File must be an image\<close>, whatever
  the state of the server, and the state is left as it was.
\<close>

theorem non_image_upload:
  "\<not> startsWith (mimetype file) ''image/'' \<Longrightarrow>
   post_predict tf env (Some file) s =
     (\<lparr>http = 500, status = ''fail'', message = ''File must be an image'', data = None\<rparr>, s)"
  by (simp add: post_predict_def upload_single_def fileFilter_def error_middleware_def fail_def)

theorem non_image_upload_witness:
  "\<not> startsWith (mimetype sample_text) ''image/'' \<and>
   post_predict sample_tf sample_env (Some sample_text) sample_loaded =
     (\<lparr>http = 500, status = ''fail'', message = ''File must be an image'', data = None\<rparr>,
      sample_loaded)"
  using non_image_upload [of sample_text sample_tf sample_env sample_loaded]
  by (simp add: sample_text_def startsWith_def)

text \<open>
  C4, as the code has it. The error of \<open>fileFilter\<close> is not mapped by the error
  middleware's one explicit case (its message is not \<open>File too large\<close>): it takes the
  default branch, which answers 500 with the error's own message,
  \<open>File must be an image\<close>.
\<close>

theorem mime_rejection_default_branch:
  "fileFilter file = Inl err \<Longrightarrow>
   err_message err = ''File must be an image'' \<and>
   err_message err \<noteq> ''File too large'' \<and>
   error_middleware err =
     \<lparr>http = 500, status = ''fail'', message = err_message err, data = None\<rparr> \<and>
   post_predict tf env (Some file) s = (error_middleware err, s)"
  by (auto simp: fileFilter_def error_middleware_def fail_def post_predict_def upload_single_def
        split: if_splits)

theorem mime_rejection_default_branch_witness:
  "fileFilter sample_text = Inl (JsError ''File must be an image'' None) \<and>
   error_middleware (JsError ''File must be an image'' None) =
     \<lparr>http = 500, status = ''fail'', message = ''File must be an image'', data = None\<rparr>"
  using mime_rejection_default_branch
    [of sample_text "JsError ''File must be an image'' None" sample_tf sample_env sample_loaded]
  by (simp add: sample_facts)

text \<open>
  The specification gives this response the handler's catch-all message. For a
  \<open>text/plain\<close> upload the message is the error's own.
\<close>

theorem mime_rejection_generic_message_counterexample:
  "fileFilter sample_text = Inl (JsError ''File must be an image'' None) \<and>
   message (fst (post_predict sample_tf sample_env (Some sample_text) sample_loaded)) =
     ''File must be an image'' \<and>
   \<not> message (fst (post_predict sample_tf sample_env (Some sample_text) sample_loaded)) =
     ''An error occurred during prediction''"
  by (simp add: post_predict_rejected sample_facts error_middleware_multer fail_def)

text \<open>
  C5, as the code has it. An upload whose MIME type starts with \<open>image/\<close> and whose
  buffer is longer than 1,000,000 bytes is answered with HTTP 413, status \<open>fail\<close> and
  the message \<open>Payload content length greater than maximum allowed: 1MB\<close>.
\<close>

theorem oversized_image_upload:
  "startsWith (mimetype file) ''image/'' \<Longrightarrow> 1000000 < length (buffer file) \<Longrightarrow>
   post_predict tf env (Some file) s =
     (\<lparr>http = 413, status = ''fail'',
       message = ''Payload content length greater than maximum allowed: 1MB'', data = None\<rparr>, s)"
  by (simp add: post_predict_def upload_single_def fileFilter_def fileSize_def
        error_middleware_def fail_def)

theorem oversized_image_upload_witness:
  "startsWith (mimetype sample_large_image) ''image/'' \<and>
   1000000 < length (buffer sample_large_image) \<and>
   post_predict sample_tf sample_env (Some sample_large_image) sample_loaded =
     (\<lparr>http = 413, status = ''fail'',
       message = ''Payload content length greater than maximum allowed: 1MB'', data = None\<rparr>,
      sample_loaded)"
  using oversized_image_upload [of sample_large_image sample_tf sample_env sample_loaded]
  by (simp add: sample_facts)

text \<open>
  The specification says so of every file above the limit. A PDF of 1,000,001 bytes is
  rejected by \<open>fileFilter\<close> before its size counts, and answered with 500.
\<close>

theorem oversized_non_image_counterexample:
  "1000000 < length (buffer sample_large_pdf) \<and>
   fst (post_predict sample_tf sample_env (Some sample_large_pdf) sample_loaded) =
     \<lparr>http = 500, status = ''fail'', message = ''File must be an image'', data = None\<rparr>"
  by (simp add: post_predict_rejected sample_facts error_middleware_multer fail_def)

section \<open>Model readiness and file presence\<close>

text \<open>
  C6, as the code has it. While the model is unset (before the load completes, or after
  a failed load, which leaves it unset), every request that multer lets through is
  answered with HTTP 500, status \<open>fail\<close> and the message
  \<open>Model is not loaded yet. Please try again later.\<close>; no library call is made and
  no document is written.
\<close>

theorem model_not_loaded:
  "model s = None \<Longrightarrow> upload_single part = Inr req_file \<Longrightarrow>
   post_predict tf env part s =
     (\<lparr>http = 500, status = ''fail'',
       message = ''Model is not loaded yet. Please try again later.'', data = None\<rparr>, s) \<and>
   calls (snd (post_predict tf env part s)) = calls s \<and>
   firestore (snd (post_predict tf env part s)) = firestore s \<and>
   model (loadModel (Inl e) s) = None"
  by (simp add: post_predict_accepted predict_handler_unloaded fail_def loadModel_def)

theorem model_not_loaded_witness:
  "model sample_unloaded = None \<and>
   upload_single (Some sample_image) = Inr (Some sample_image) \<and>
   post_predict sample_tf sample_env (Some sample_image) sample_unloaded =
     (\<lparr>http = 500, status = ''fail'',
       message = ''Model is not loaded yet. Please try again later.'', data = None\<rparr>,
      sample_unloaded) \<and>
   calls (snd (post_predict sample_tf sample_env (Some sample_image) sample_unloaded)) = []"
  using model_not_loaded
    [of sample_unloaded "Some sample_image" "Some sample_image" sample_tf sample_env]
  by (simp add: sample_facts sample_unloaded_def loadModel_def initial_state_def)

text \<open>
  The specification says so of every request. With the model unset, a \<open>text/plain\<close>
  upload never reaches the handler: multer rejects it and the answer is
  \<open>File must be an image\<close>.
\<close>

theorem model_unset_non_image_counterexample:
  "model sample_unloaded = None \<and>
   fst (post_predict sample_tf sample_env (Some sample_text) sample_unloaded) =
     \<lparr>http = 500, status = ''fail'', message = ''File must be an image'', data = None\<rparr> \<and>
   \<not> message (fst (post_predict sample_tf sample_env (Some sample_text) sample_unloaded)) =
     ''Model is not loaded yet. Please try again later.''"
  by (simp add: post_predict_rejected sample_facts error_middleware_multer fail_def)

text \<open>
  C7. With the model loaded, a request without a file is answered with HTTP 400, status
  \<open>fail\<close> and the message \<open>File not uploaded\<close>, and the state is left as it was.
\<close>

theorem file_not_uploaded:
  "model s = Some m \<Longrightarrow>
   post_predict tf env None s =
     (\<lparr>http = 400, status = ''fail'', message = ''File not uploaded'', data = None\<rparr>, s)"
  by (simp add: post_predict_def upload_single_def predict_handler_def fail_def)

theorem file_not_uploaded_witness:
  "model sample_loaded = Some (9/10) \<and>
   post_predict sample_tf sample_env None sample_loaded =
     (\<lparr>http = 400, status = ''fail'', message = ''File not uploaded'', data = None\<rparr>,
      sample_loaded)"
  using file_not_uploaded [of sample_loaded "9/10" sample_tf sample_env]
  by (simp add: sample_facts)

section \<open>The preprocessing pipeline\<close>

text \<open>
  C8. For every accepted upload with the model loaded, the request makes exactly these
  calls, in this order, each on the value the one before returned, and stops at the
  first that throws: decode the buffer with 3 channels, bilinear resize to
  \<open>[224, 224]\<close>, expand dimension 0, divide by the scalar 255, give the divided tensor
  to the model, read the output as an array. No call is skipped and the first is always
  made. When all six return and the array has a row 0, the one write follows, and the
  record (sent as \<open>data\<close> when the write is let through) is computed from the value
  at \<open>[0][0]\<close> of that array: the first element of row 0, or \<open>undefined\<close> when
  row 0 is empty. With no row 0 the read throws and nothing is written.
\<close>

theorem preprocessing_pipeline:
  "model s = Some m \<Longrightarrow> upload_single part = Inr (Some file) \<Longrightarrow>
   (data (fst (post_predict tf env part s)), calls (snd (post_predict tf env part s))) =
     (case decodeImage tf (buffer file) 3 of
        Inl _ \<Rightarrow> (None, calls s @ [DecodeImage 3])
      | Inr decoded \<Rightarrow>
     (case resizeBilinear tf decoded [224, 224] of
        Inl _ \<Rightarrow> (None, calls s @ [DecodeImage 3, ResizeBilinear [224, 224]])
      | Inr resized \<Rightarrow>
     (case expandDims tf resized 0 of
        Inl _ \<Rightarrow> (None, calls s @ [DecodeImage 3, ResizeBilinear [224, 224], ExpandDims 0])
      | Inr expanded \<Rightarrow>
     (case tensor_div tf expanded (scalar tf 255) of
        Inl _ \<Rightarrow>
          (None, calls s @ [DecodeImage 3, ResizeBilinear [224, 224], ExpandDims 0,
                            TensorDiv 255])
      | Inr input \<Rightarrow>
     (case predict tf m input of
        Inl _ \<Rightarrow>
          (None, calls s @ [DecodeImage 3, ResizeBilinear [224, 224], ExpandDims 0,
                            TensorDiv 255, ModelPredict])
      | Inr prediction \<Rightarrow>
     (case array tf prediction of
        Inl _ \<Rightarrow>
          (None, calls s @ [DecodeImage 3, ResizeBilinear [224, 224], ExpandDims 0,
                            TensorDiv 255, ModelPredict, TensorArray])
      | Inr predictionArray \<Rightarrow>
          if predictionArray = []
          then (None, calls s @ [DecodeImage 3, ResizeBilinear [224, 224], ExpandDims 0,
                                 TensorDiv 255, ModelPredict, TensorArray])
          else (if db_error env = None
                then Some \<lparr>id' = uuid env,
                       result = result_of
                         (if predictionArray ! 0 = [] then None
                          else Some (predictionArray ! 0 ! 0)),
                       suggestion = suggestion_of (result_of
                         (if predictionArray ! 0 = [] then None
                          else Some (predictionArray ! 0 ! 0))),
                       createdAt = now env\<rparr>
                else None,
                calls s @ [DecodeImage 3, ResizeBilinear [224, 224], ExpandDims 0,
                           TensorDiv 255, ModelPredict, TensorArray,
                           DocSet ''predictions'' (uuid env)])))))))"
  by (auto simp: post_predict_def predict_handler_def run_inference_def prepare_image_def
        and_then_def call_def no_call_def at_0_0_def save_and_respond_def doc_set_def
        record_of_def fail_def
      split: sum.splits list.splits option.splits)

theorem preprocessing_pipeline_witness:
  "model sample_loaded = Some (9/10) \<and>
   upload_single (Some sample_image) = Inr (Some sample_image) \<and>
   (data (fst (post_predict sample_tf sample_env (Some sample_image) sample_loaded)),
    calls (snd (post_predict sample_tf sample_env (Some sample_image) sample_loaded))) =
     (Some \<lparr>id' = uuid sample_env, result = ''Cancer'',
            suggestion = ''Segera periksa ke dokter!'', createdAt = now sample_env\<rparr>,
      [DecodeImage 3, ResizeBilinear [224, 224], ExpandDims 0, TensorDiv 255,
       ModelPredict, TensorArray, DocSet ''predictions'' (uuid sample_env)]) \<and>
   model sample_loaded_low = Some (1/10) \<and>
   (data (fst (post_predict sample_tf sample_env (Some sample_image) sample_loaded_low)),
    calls (snd (post_predict sample_tf sample_env (Some sample_image) sample_loaded_low))) =
     (Some \<lparr>id' = uuid sample_env, result = ''Non-cancer'',
            suggestion = ''Penyakit kanker tidak terdeteksi.'', createdAt = now sample_env\<rparr>,
      [DecodeImage 3, ResizeBilinear [224, 224], ExpandDims 0, TensorDiv 255,
       ModelPredict, TensorArray, DocSet ''predictions'' (uuid sample_env)]) \<and>
   upload_single (Some sample_empty_image) = Inr (Some sample_empty_image) \<and>
   (data (fst (post_predict sample_tf sample_env (Some sample_empty_image) sample_loaded)),
    calls (snd (post_predict sample_tf sample_env (Some sample_empty_image) sample_loaded))) =
     (None, [DecodeImage 3])"
proof -
  have hi: "model sample_loaded = Some (9/10)" and lo: "model sample_loaded_low = Some (1/10)"
    and c: "calls sample_loaded = []" "calls sample_loaded_low = []"
    by (simp_all add: sample_loaded_def sample_loaded_low_def loadModel_def initial_state_def)
  have img: "upload_single (Some sample_image) = Inr (Some sample_image)"
    and emp: "upload_single (Some sample_empty_image) = Inr (Some sample_empty_image)"
    by (simp_all add: upload_single_def fileFilter_def fileSize_def startsWith_def
          sample_image_def sample_empty_image_def)
  have b: "buffer sample_image = [137, 80]" "buffer sample_empty_image = []"
    by (simp_all add: sample_image_def sample_empty_image_def)
  have d: "db_error sample_env = None" by (simp add: sample_env_def)
  have ev:
    "decodeImage sample_tf [137, 80] 3 = Inr [137, 80]"
    "decodeImage sample_tf [] 3 = Inl (JsError ''Expected image (BMP, JPEG, PNG, or GIF)'' None)"
    "resizeBilinear sample_tf [137, 80] [224, 224] = Inr [137, 80]"
    "expandDims sample_tf [137, 80] 0 = Inr [137, 80]"
    "tensor_div sample_tf [137, 80] (scalar sample_tf 255) = Inr [137 / 255, 80 / 255]"
    "\<And>m t. predict sample_tf m t = Inr [m]"
    "\<And>m. array sample_tf [m] = Inr [[Finite m]]"
    by (simp_all add: sample_tf_def)
  have r: "result_of (Some (Finite (9/10))) = ''Cancer''"
          "result_of (Some (Finite (1/10))) = ''Non-cancer''"
    by (simp_all add: result_of_def to_number_def js_gt_def)
  show ?thesis
    using preprocessing_pipeline [OF hi img, of sample_tf sample_env]
          preprocessing_pipeline [OF lo img, of sample_tf sample_env]
          preprocessing_pipeline [OF hi emp, of sample_tf sample_env]
    by (simp add: hi lo c img emp b d ev r suggestion_of_def)
qed

section \<open>The diagnostic route\<close>

text \<open>
  C9. \<open>GET /test-firestore\<close> answers 200, \<open>success\<close>,
  \<open>Firestore connected!\<close> when the write of the diagnostic document is let through
  (and the document is then stored), and 500, \<open>fail\<close> with the error's own message
  when the write is rejected.
\<close>

theorem test_firestore_outcomes:
  "(db_error env = None \<longrightarrow>
      test_firestore env s =
        (\<lparr>http = 200, status = ''success'', message = ''Firestore connected!'', data = None\<rparr>,
         s\<lparr>firestore := (firestore s)((''test'', ''testDoc'') \<mapsto>
                            TestDoc ''Hello, Firestore!'' (now env)),
           calls := calls s @ [DocSet ''test'' ''testDoc'']\<rparr>)) \<and>
   (\<forall>err. db_error env = Some err \<longrightarrow>
      fst (test_firestore env s) =
        \<lparr>http = 500, status = ''fail'', message = err_message err, data = None\<rparr> \<and>
      firestore (snd (test_firestore env s)) = firestore s)"
  by (simp add: test_firestore_def doc_set_def fail_def)

theorem test_firestore_outcomes_witness:
  "db_error sample_env = None \<and>
   fst (test_firestore sample_env sample_loaded) =
     \<lparr>http = 200, status = ''success'', message = ''Firestore connected!'', data = None\<rparr> \<and>
   db_error sample_env_offline = Some (JsError ''14 UNAVAILABLE'' None) \<and>
   fst (test_firestore sample_env_offline sample_loaded) =
     \<lparr>http = 500, status = ''fail'', message = ''14 UNAVAILABLE'', data = None\<rparr>"
  using test_firestore_outcomes [of sample_env sample_loaded]
        test_firestore_outcomes [of sample_env_offline sample_loaded]
  by (simp add: sample_env_def sample_env_offline_def)

section \<open>Order of the handler's checks\<close>

text \<open>
  C10, as the code has it. The handler checks the model before the file: with the model
  unset, a request without a file, and every request multer lets through, is answered
  with the 500 \<open>Model is not loaded yet. Please try again later.\<close> envelope; and an
  answer with HTTP 400 only comes with the model loaded (and no file).
\<close>

theorem readiness_before_file_presence:
  "(model s = None \<longrightarrow>
      post_predict tf env None s =
        (\<lparr>http = 500, status = ''fail'',
          message = ''Model is not loaded yet. Please try again later.'', data = None\<rparr>, s)) \<and>
   (model s = None \<and> upload_single part = Inr req_file \<longrightarrow>
      post_predict tf env part s =
        (\<lparr>http = 500, status = ''fail'',
          message = ''Model is not loaded yet. Please try again later.'', data = None\<rparr>, s)) \<and>
   (http (fst (post_predict tf env part s)) = 400 \<longrightarrow> model s \<noteq> None \<and> part = None)"
proof (intro conjI impI)
  assume "model s = None"
  then show "post_predict tf env None s =
        (\<lparr>http = 500, status = ''fail'',
          message = ''Model is not loaded yet. Please try again later.'', data = None\<rparr>, s)"
    by (simp add: post_predict_def upload_single_def predict_handler_unloaded fail_def)
next
  assume "model s = None \<and> upload_single part = Inr req_file"
  then show "post_predict tf env part s =
        (\<lparr>http = 500, status = ''fail'',
          message = ''Model is not loaded yet. Please try again later.'', data = None\<rparr>, s)"
    by (simp add: post_predict_accepted predict_handler_unloaded fail_def)
next
  assume a: "http (fst (post_predict tf env part s)) = 400"
  show "model s \<noteq> None"
  proof
    assume n: "model s = None"
    show False
    proof (cases "upload_single part")
      case (Inl err)
      then show False using a
        by (auto simp: post_predict_rejected upload_single_Inl error_middleware_multer fail_def
              split: if_splits)
    next
      case (Inr rf)
      then show False using a n
        by (simp add: post_predict_accepted predict_handler_unloaded fail_def)
    qed
  qed
next
  assume a: "http (fst (post_predict tf env part s)) = 400"
  show "part = None"
  proof (cases "upload_single part")
    case (Inl err)
    then show ?thesis using a
      by (auto simp: post_predict_rejected upload_single_Inl error_middleware_multer fail_def
            split: if_splits)
  next
    case (Inr rf)
    show ?thesis
    proof (cases part)
      case None
      then show ?thesis by simp
    next
      case (Some f)
      with Inr have rf: "rf = Some f" by (auto simp: upload_single_Inr)
      show ?thesis
      proof (cases "model s")
        case None
        with a Inr show ?thesis
          by (simp add: post_predict_accepted predict_handler_unloaded fail_def)
      next
        case (Some m)
        obtain r s1 where ri: "run_inference tf m (buffer f) s = (r, s1)"
          by (cases "run_inference tf m (buffer f) s")
        show ?thesis
        proof (cases r)
          case (Inl e)
          with a Inr rf Some ri show ?thesis
            by (simp add: post_predict_accepted predict_handler_inference_failed fail_def)
        next
          case (Inr score)
          with a \<open>upload_single part = Inr rf\<close> rf Some ri show ?thesis
            by (cases "db_error env")
               (simp_all add: post_predict_accepted predict_handler_success
                  predict_handler_write_rejected fail_def)
        qed
      qed
    qed
  qed
qed

theorem readiness_before_file_presence_witness:
  "model sample_unloaded = None \<and>
   fst (post_predict sample_tf sample_env None sample_unloaded) =
     \<lparr>http = 500, status = ''fail'',
      message = ''Model is not loaded yet. Please try again later.'', data = None\<rparr> \<and>
   http (fst (post_predict sample_tf sample_env None sample_loaded)) = 400 \<and>
   model sample_loaded \<noteq> None"
  using readiness_before_file_presence
          [of sample_unloaded sample_tf sample_env None None]
        readiness_before_file_presence
          [of sample_loaded sample_tf sample_env None None]
  by (simp add: sample_facts post_predict_def upload_single_def predict_handler_def fail_def)

text \<open>
  The specification says so of every request made with the model unset. An image of
  1,000,001 bytes is rejected by multer before the handler runs, and answered with 413.
\<close>

theorem model_unset_oversized_counterexample:
  "model sample_unloaded = None \<and>
   fst (post_predict sample_tf sample_env (Some sample_large_image) sample_unloaded) =
     \<lparr>http = 413, status = ''fail'',
      message = ''Payload content length greater than maximum allowed: 1MB'', data = None\<rparr>"
  by (simp add: post_predict_rejected sample_facts error_middleware_multer fail_def)

end
